theory Spec2Isabelle
  imports Main "HOL-Library.Word"
begin

section \<open>Wire messages\<close>

text \<open>
  A frame is \<open>(type, session, payload)\<close>. The session is Go's \<open>uint64\<close>; the payload
  is a sequence of self-describing values, of which the code looks only at strings
  (event names) and byte blobs (chunk data).
\<close>

type_synonym session = "64 word"
type_synonym bytes = "8 word list"

datatype pvalue = VString string | VBytes bytes | VInt int

record Message =
  MsgType :: nat
  Session :: session
  Payload :: "pvalue list"

text \<open>
  Modelled from the spec: the message type constants are declared outside
  \<open>worker.go\<close>; the numbers are those of the wire table (handshake 0, heartbeat 1,
  terminate 2, invoke 3, chunk 4, error 5, choke 6).
\<close>

definition handshakeType :: nat where "handshakeType = 0"
definition heartbeatType :: nat where "heartbeatType = 1"
definition terminateType :: nat where "terminateType = 2"
definition invokeType :: nat where "invokeType = 3"
definition chunkType :: nat where "chunkType = 4"
definition errorType :: nat where "errorType = 5"
definition chokeType :: nat where "chokeType = 6"

text \<open>
  Modelled from the spec: the frame constructors are declared outside \<open>worker.go\<close>;
  the payloads are those of the wire table. Control frames travel on session 0.
\<close>

definition newHandshake :: "string \<Rightarrow> Message" where
  "newHandshake ident = \<lparr>MsgType = handshakeType, Session = 0, Payload = [VString ident]\<rparr>"

definition newHeartbeatMessage :: Message where
  "newHeartbeatMessage = \<lparr>MsgType = heartbeatType, Session = 0, Payload = []\<rparr>"

definition newChunk :: "session \<Rightarrow> bytes \<Rightarrow> Message" where
  "newChunk s d = \<lparr>MsgType = chunkType, Session = s, Payload = [VBytes d]\<rparr>"

definition newError :: "session \<Rightarrow> int \<Rightarrow> string \<Rightarrow> Message" where
  "newError s code text = \<lparr>MsgType = errorType, Session = s, Payload = [VInt code, VString text]\<rparr>"

definition newChoke :: "session \<Rightarrow> Message" where
  "newChoke s = \<lparr>MsgType = chokeType, Session = s, Payload = []\<rparr>"

text \<open>
  Modelled from the spec: \<open>getEventName\<close> is declared outside \<open>worker.go\<close>. The event
  name is the payload's element at position 0, as a string; the second component is
  Go's \<open>ok\<close>.
\<close>

definition getEventName :: "Message \<Rightarrow> string \<times> bool" where
  "getEventName msg =
     (case Payload msg of
        VString event # _ \<Rightarrow> (event, True)
      | _ \<Rightarrow> ([], False))"

section \<open>Constants of the worker\<close>

text \<open>A \<open>time.Duration\<close> counts nanoseconds.\<close>

type_synonym duration = int

definition Second :: duration where "Second = 1000000000"

definition heartbeatTimeout :: duration where "heartbeatTimeout = Second * 10"
definition disownTimeout :: duration where "disownTimeout = Second * 5"
definition coreConnectionTimeout :: duration where "coreConnectionTimeout = Second * 5"

definition ErrorNoEventHandler :: int where "ErrorNoEventHandler = 200"
definition ErrorPanicInHandler :: int where "ErrorPanicInHandler = 100"

datatype error = ErrDisowned | ErrConnect string

section \<open>Session streams\<close>

text \<open>
  Modelled from the spec: the request stream behind the \<open>requestStream\<close> interface is
  declared outside \<open>worker.go\<close>. It is created empty; \<open>push\<close> appends a message;
  \<open>Close\<close> marks the stream closed, and a \<open>push\<close> after that is dropped.
\<close>

record requestStream =
  queue :: "Message list"
  req_closed :: bool

definition newRequest :: requestStream where
  "newRequest = \<lparr>queue = [], req_closed = False\<rparr>"

definition push :: "requestStream \<Rightarrow> Message \<Rightarrow> requestStream" where
  "push r msg = (if req_closed r then r else r\<lparr>queue := queue r @ [msg]\<rparr>)"

definition req_Close :: "requestStream \<Rightarrow> requestStream" where
  "req_Close r = r\<lparr>req_closed := True\<rparr>"

text \<open>
  Modelled from the spec: the response stream behind the \<open>ResponseStream\<close> interface is
  declared outside \<open>worker.go\<close>. It is bound to one session and to the worker's
  outbound channel. \<open>Write\<close> sends a chunk frame; \<open>Close\<close> sends a choke frame,
  then marks the stream finished; \<open>ErrorMsg\<close> sends an error frame carrying the code
  and the text, then finishes the stream. A handler that calls \<open>ErrorMsg\<close> and nothing
  else leaves the error frame followed by a choke frame on the wire (the scenarios of
  the unknown event and of the handler panic), so finishing the stream is what \<open>Close\<close>
  does: the choke frame is sent and the stream is marked. After finish, all three are
  no-ops. Each operation returns the frames it puts on the outbound channel.
\<close>

record response =
  resp_session :: session
  finished :: bool

definition newResponse :: "session \<Rightarrow> response" where
  "newResponse s = \<lparr>resp_session = s, finished = False\<rparr>"

datatype resp_call = Write bytes | ErrorMsg int string | Close

fun resp_apply :: "response \<Rightarrow> resp_call \<Rightarrow> Message list \<times> response" where
  "resp_apply r (Write d) =
     (if finished r then ([], r) else ([newChunk (resp_session r) d], r))"
| "resp_apply r (ErrorMsg code text) =
     (if finished r then ([], r)
      else ([newError (resp_session r) code text, newChoke (resp_session r)],
            r\<lparr>finished := True\<rparr>))"
| "resp_apply r Close =
     (if finished r then ([], r)
      else ([newChoke (resp_session r)], r\<lparr>finished := True\<rparr>))"

text \<open>The frames a sequence of calls puts on the outbound channel, in order.\<close>

fun resp_frames :: "response \<Rightarrow> resp_call list \<Rightarrow> Message list" where
  "resp_frames r [] = []"
| "resp_frames r (c # cs) =
     (case resp_apply r c of (out, r') \<Rightarrow> out @ resp_frames r' cs)"

section \<open>Handlers and the panic trap\<close>

text \<open>
  A handler is user code. One execution of it is represented by what the worker can
  observe: the calls it makes on its response stream, in order, and the way it ends.
  A panic carries the text that \<open>%s\<close> prints for the panic value. The handler's
  behaviour may depend on the payloads it reads from its request stream.
\<close>

datatype outcome = Returned | Panicked string

record handler_run =
  calls :: "resp_call list"
  ending :: outcome

type_synonym EventHandler = "bytes list \<Rightarrow> handler_run"
type_synonym FallbackEventHandler = "string \<Rightarrow> bytes list \<Rightarrow> handler_run"

definition DefaultFallbackEventHandler :: FallbackEventHandler where
  "DefaultFallbackEventHandler event request =
     (let errMsg = ''There is no handler for event '' @ event
      in \<lparr>calls = [ErrorMsg ErrorNoEventHandler errMsg], ending = Returned\<rparr>)"

text \<open>\<open>recover()\<close> in a deferred call: nil unless the function is panicking.\<close>

fun recover :: "outcome \<Rightarrow> string option" where
  "recover Returned = None"
| "recover (Panicked info) = Some info"

text \<open>The calls the deferred \<open>recoverTrap\<close> makes on the response stream.\<close>

definition recoverTrap :: "string \<Rightarrow> outcome \<Rightarrow> resp_call list" where
  "recoverTrap event how =
     (case recover how of
        None \<Rightarrow> []
      | Some recoverInfo \<Rightarrow>
          (let errMsg = ''Error in event: '' @ [CHR 0x27] @ event @ [CHR 0x27]
                          @ '', exception: '' @ recoverInfo
           in [ErrorMsg ErrorPanicInHandler errMsg]))"

text \<open>
  A task runs the handler and then, deferred, the trap. Both tasks return normally:
  the trap's \<open>recover()\<close> ends the panic.
\<close>

definition callFallbackHandler ::
    "FallbackEventHandler \<Rightarrow> string \<Rightarrow> bytes list \<Rightarrow> resp_call list" where
  "callFallbackHandler fallback event request =
     (let run = fallback event request
      in calls run @ recoverTrap event (ending run))"

definition callHandler :: "EventHandler \<Rightarrow> string \<Rightarrow> bytes list \<Rightarrow> resp_call list" where
  "callHandler handler event request =
     (let run = handler request
      in calls run @ recoverTrap event (ending run))"

text \<open>
  What a \<open>go\<close> statement of \<open>onMessage\<close> spawns: the event, the request stream (a
  reference into the worker's streams) and the response stream of the session. The
  fallback task reads the worker's \<open>fallbackHandler\<close> field when it runs.
\<close>

datatype task =
    HandlerTask string EventHandler nat response
  | FallbackTask string nat response

fun task_response :: "task \<Rightarrow> response" where
  "task_response (HandlerTask event handler req resp) = resp"
| "task_response (FallbackTask event req resp) = resp"

fun task_calls :: "FallbackEventHandler \<Rightarrow> task \<Rightarrow> bytes list \<Rightarrow> resp_call list" where
  "task_calls fallback (HandlerTask event handler req resp) request =
     callHandler handler event request"
| "task_calls fallback (FallbackTask event req resp) request =
     callFallbackHandler fallback event request"

definition task_frames :: "FallbackEventHandler \<Rightarrow> task \<Rightarrow> bytes list \<Rightarrow> Message list" where
  "task_frames fallback t request =
     resp_frames (task_response t) (task_calls fallback t request)"

section \<open>The worker\<close>

text \<open>
  Modelled from the spec: the socket behind \<open>socketIO\<close> is declared outside
  \<open>worker.go\<close>. It accepts frames for the wire until it is closed; \<open>Close\<close> is
  idempotent. A guarded send (\<open>select\<close> on \<open>Write()\<close> and \<open>IsClosed()\<close>) delivers
  the frame when the socket is open and drops it when the socket is closed.
\<close>

record socketIO =
  written :: "Message list"
  sock_closed :: bool

definition conn_send :: "socketIO \<Rightarrow> Message \<Rightarrow> socketIO" where
  "conn_send c msg = (if sock_closed c then c else c\<lparr>written := written c @ [msg]\<rparr>)"

definition conn_Close :: "socketIO \<Rightarrow> socketIO" where
  "conn_Close c = c\<lparr>sock_closed := True\<rparr>"

text \<open>
  A \<open>time.Timer\<close>: running towards its deadline, stopped, or expired after its tick
  has been received.
\<close>

datatype timer = Armed duration | Stopped | Expired

fun armed :: "timer \<Rightarrow> bool" where
  "armed (Armed d) = True"
| "armed Stopped = False"
| "armed Expired = False"

text \<open>
  The struct \<open>Worker\<close>. The session table maps a session to a request stream, which
  Go holds by reference: \<open>streams\<close> is the store of the request streams created so
  far and a reference is an index into it. The channel \<open>stopped\<close> is \<open>True\<close> once it
  is closed. \<open>spawned\<close> lists the tasks started by \<open>go\<close>, \<open>printed\<close> the messages
  reported as invalid on standard output.

  \<open>Stop\<close> is exported and takes no lock, so goroutines of the embedding program run it
  concurrently with the loop. \<open>stoppers\<close> counts their calls of \<open>Stop\<close> that have
  passed \<open>isStopped\<close> and have not yet reached \<open>close\<close>. \<open>preempted\<close> is the
  scheduler's decision for the loop's next call of \<open>Stop\<close>: one of these goroutines
  runs its \<open>close\<close> between the loop's check and the loop's \<open>close\<close>.
\<close>

record Worker =
  conn :: socketIO
  id_field :: string
  heartbeatTimer :: timer
  disownTimer :: timer
  sessions :: "session \<rightharpoonup> nat"
  handlers :: "string \<rightharpoonup> EventHandler"
  stopped :: bool
  fallbackHandler :: FallbackEventHandler
  streams :: "requestStream list"
  spawned :: "task list"
  printed :: "Message list"
  stoppers :: nat
  preempted :: bool

definition sendHandshake :: "Worker \<Rightarrow> Worker" where
  "sendHandshake w = w\<lparr>conn := conn_send (conn w) (newHandshake (id_field w))\<rparr>"

text \<open>
  \<open>newWorker\<close> always returns a nil error, so the model returns the worker. Both
  timers are created running and stopped at once.
\<close>

definition newWorker :: "socketIO \<Rightarrow> string \<Rightarrow> Worker" where
  "newWorker c ident =
     (let w = \<lparr>conn = c, id_field = ident,
                heartbeatTimer = Armed heartbeatTimeout,
                disownTimer = Armed disownTimeout,
                sessions = Map.empty, handlers = Map.empty,
                stopped = False,
                fallbackHandler = DefaultFallbackEventHandler,
                streams = [], spawned = [], printed = [],
                stoppers = 0, preempted = False\<rparr>;
          w = w\<lparr>disownTimer := Stopped\<rparr>;
          w = w\<lparr>heartbeatTimer := Stopped\<rparr>
      in sendHandshake w)"

text \<open>
  \<open>NewWorker\<close> takes the worker's id and the endpoint from the command line and
  connects; the outcome of the connection attempt is the argument here.
\<close>

definition NewWorker :: "error + socketIO \<Rightarrow> string \<Rightarrow> error + Worker" where
  "NewWorker sock workerID =
     (case sock of Inl err \<Rightarrow> Inl err | Inr c \<Rightarrow> Inr (newWorker c workerID))"

definition On :: "Worker \<Rightarrow> string \<Rightarrow> EventHandler \<Rightarrow> Worker" where
  "On w event handler = w\<lparr>handlers := (handlers w)(event \<mapsto> handler)\<rparr>"

definition SetFallbackHandler :: "Worker \<Rightarrow> FallbackEventHandler \<Rightarrow> Worker" where
  "SetFallbackHandler w handler = w\<lparr>fallbackHandler := handler\<rparr>"

definition isStopped :: "Worker \<Rightarrow> bool" where
  "isStopped w = stopped w"

text \<open>Closing a channel that is closed already panics.\<close>

datatype panic = CloseOfClosedChannel

definition close_chan :: "bool \<Rightarrow> panic + bool" where
  "close_chan c = (if c then Inl CloseOfClosedChannel else Inr True)"

text \<open>
  The point between the check and the \<open>close\<close> of the loop's \<open>Stop\<close>. When the
  scheduler has decided so and a call of another goroutine is past its own check, that
  goroutine closes the channel and the connection here (the channel is still open at
  this point, so that \<open>close\<close> succeeds).
\<close>

definition yield :: "Worker \<Rightarrow> Worker" where
  "yield w =
     (if preempted w \<and> 0 < stoppers w
      then w\<lparr>stopped := True, conn := conn_Close (conn w),
              stoppers := stoppers w - 1, preempted := False\<rparr>
      else w)"

text \<open>
  \<open>Stop\<close> as the loop runs it (from \<open>onDisown\<close> and \<open>onTerminate\<close>): the check, the
  point where another goroutine may run, then \<open>close(w.stopped)\<close> and
  \<open>w.conn.Close()\<close>.
\<close>

definition Stop :: "Worker \<Rightarrow> panic + Worker" where
  "Stop w =
     (if isStopped w then Inr w
      else (let w = yield w
            in (case close_chan (stopped w) of
                  Inl p \<Rightarrow> Inl p
                | Inr c \<Rightarrow> Inr (w\<lparr>stopped := c, conn := conn_Close (conn w)\<rparr>))))"

text \<open>
  \<open>Stop\<close> as a goroutine of the embedding program runs it, in its two steps: the
  check, after which the call is counted in \<open>stoppers\<close> unless it returns at once, and
  later \<open>close(w.stopped)\<close> with \<open>w.conn.Close()\<close>.
\<close>

definition Stop_check :: "Worker \<Rightarrow> Worker" where
  "Stop_check w = (if isStopped w then w else w\<lparr>stoppers := stoppers w + 1\<rparr>)"

definition Stop_close :: "Worker \<Rightarrow> panic + Worker" where
  "Stop_close w =
     (case close_chan (stopped w) of
        Inl p \<Rightarrow> Inl p
      | Inr c \<Rightarrow> Inr (w\<lparr>stopped := c, conn := conn_Close (conn w),
                         stoppers := stoppers w - 1\<rparr>))"

definition onDisown :: "Worker \<Rightarrow> panic + Worker" where
  "onDisown w = Stop w"

definition onTerminate :: "Worker \<Rightarrow> panic + Worker" where
  "onTerminate w = Stop w"

definition onHeartbeat :: "Worker \<Rightarrow> Worker" where
  "onHeartbeat w =
     (let w = w\<lparr>conn := conn_send (conn w) newHeartbeatMessage\<rparr>;
          w = w\<lparr>disownTimer := Armed disownTimeout\<rparr>
      in w\<lparr>heartbeatTimer := Armed heartbeatTimeout\<rparr>)"

definition onMessage :: "Worker \<Rightarrow> Message \<Rightarrow> panic + Worker" where
  "onMessage w msg =
     (if MsgType msg = chunkType then
        (case sessions w (Session msg) of
           Some reqStream \<Rightarrow>
             Inr (w\<lparr>streams := (streams w)[reqStream := push (streams w ! reqStream) msg]\<rparr>)
         | None \<Rightarrow> Inr w)
      else if MsgType msg = chokeType then
        (case sessions w (Session msg) of
           Some reqStream \<Rightarrow>
             Inr (w\<lparr>streams := (streams w)[reqStream := req_Close (streams w ! reqStream)],
                     sessions := (sessions w)(Session msg := None)\<rparr>)
         | None \<Rightarrow> Inr w)
      else if MsgType msg = invokeType then
        (let currentSession = Session msg;
             (event, ok) = getEventName msg
         in if \<not> ok then Inr w
            else
              (let responseStream = newResponse currentSession;
                   requestStream = length (streams w);
                   w = w\<lparr>streams := streams w @ [newRequest]\<rparr>;
                   w = w\<lparr>sessions := (sessions w)(currentSession \<mapsto> requestStream)\<rparr>
               in (case handlers w event of
                     None \<Rightarrow>
                       Inr (w\<lparr>spawned := spawned w
                                  @ [FallbackTask event requestStream responseStream]\<rparr>)
                   | Some handler \<Rightarrow>
                       Inr (w\<lparr>spawned := spawned w
                                  @ [HandlerTask event handler requestStream responseStream]\<rparr>))))
      else if MsgType msg = heartbeatType then
        Inr (w\<lparr>disownTimer := Stopped\<rparr>)
      else if MsgType msg = terminateType then
        onTerminate w
      else
        Inr (w\<lparr>printed := printed w @ [msg]\<rparr>))"

section \<open>The loop\<close>

text \<open>
  One iteration of \<open>loop\<close> takes one ready case of its \<open>select\<close>. A run is driven by
  the sequence of cases taken: a frame read from the connection, the connection's read
  channel found closed, a tick of either timer, a frame from a handler, or the closed
  \<open>stopped\<close> channel. A timer ticks only while it is armed, and \<open>stopped\<close> is ready
  only once it is closed. Between the iterations come the steps of the other
  goroutines: \<open>StopCheck\<close> and \<open>StopClose\<close> are the two steps of a call of \<open>Stop\<close> by the
  embedding program (the second is possible only for a call that is past its check),
  and \<open>Preempt\<close> is the scheduler's decision to let such a call run its \<open>close\<close> in
  the middle of the loop's next \<open>Stop\<close>.
\<close>

datatype event =
    Recv Message
  | RecvClosed
  | HeartbeatTick
  | DisownTick
  | FromHandlers Message
  | StoppedSignal
  | StopCheck
  | StopClose
  | Preempt

fun enabled :: "Worker \<Rightarrow> event \<Rightarrow> bool" where
  "enabled w HeartbeatTick = armed (heartbeatTimer w)"
| "enabled w DisownTick = armed (disownTimer w)"
| "enabled w StoppedSignal = stopped w"
| "enabled w StopClose = (0 < stoppers w)"
| "enabled w ev = True"

text \<open>
  The state of a run: returned with Go's \<open>error\<close> (\<open>None\<close> is nil), still in the
  \<open>select\<close> with the current value of \<open>err\<close>, ended by a panic in the loop's
  goroutine or by a panic in a goroutine of the embedding program (either ends the
  process, and \<open>Run\<close> does not return), or the sequence asked for a step that is not
  ready.
\<close>

datatype run = Return "error option" Worker | Selecting "error option" Worker
  | LoopPanic panic | CallerPanic panic | NotReady

fun loop_from :: "error option \<Rightarrow> Worker \<Rightarrow> event list \<Rightarrow> run" where
  "loop_from err w [] = Selecting err w"
| "loop_from err w (ev # evs) =
     (if \<not> enabled w ev then NotReady
      else (case ev of
              Recv msg \<Rightarrow>
                (case onMessage w msg of
                   Inl p \<Rightarrow> LoopPanic p
                 | Inr w' \<Rightarrow> loop_from err w' evs)
            | RecvClosed \<Rightarrow> loop_from err w evs
            | HeartbeatTick \<Rightarrow>
                loop_from err (onHeartbeat (w\<lparr>heartbeatTimer := Expired\<rparr>)) evs
            | DisownTick \<Rightarrow>
                (case onDisown (w\<lparr>disownTimer := Expired\<rparr>) of
                   Inl p \<Rightarrow> LoopPanic p
                 | Inr w' \<Rightarrow> loop_from (Some ErrDisowned) w' evs)
            | FromHandlers outcoming \<Rightarrow>
                loop_from err (w\<lparr>conn := conn_send (conn w) outcoming\<rparr>) evs
            | StoppedSignal \<Rightarrow> Return err w
            | StopCheck \<Rightarrow> loop_from err (Stop_check w) evs
            | StopClose \<Rightarrow>
                (case Stop_close w of
                   Inl p \<Rightarrow> CallerPanic p
                 | Inr w' \<Rightarrow> loop_from err w' evs)
            | Preempt \<Rightarrow> loop_from err (w\<lparr>preempted := True\<rparr>) evs))"

definition loop :: "Worker \<Rightarrow> event list \<Rightarrow> run" where
  "loop w evs = loop_from None (onHeartbeat w) evs"

text \<open>
  \<open>Run\<close> binds the given handlers (the keys of a Go map are distinct, so the order of
  the range does not matter) and enters the loop.
\<close>

definition Run :: "Worker \<Rightarrow> (string \<rightharpoonup> EventHandler) \<Rightarrow> event list \<Rightarrow> run" where
  "Run w hs evs = loop (w\<lparr>handlers := handlers w ++ hs\<rparr>) evs"

text \<open>Readings of a run, and the frames that ask the worker to stop.\<close>

fun returned :: "run \<Rightarrow> error option option" where
  "returned (Return e w) = Some e"
| "returned r = None"

fun selecting :: "run \<Rightarrow> bool" where
  "selecting (Selecting e w) = True"
| "selecting r = False"

fun stop_requested :: "event \<Rightarrow> bool" where
  "stop_requested (Recv msg) = (MsgType msg = terminateType)"
| "stop_requested ev = False"

text \<open>Readings of a task: its event, the run of its handler, the stream afterwards.\<close>

fun task_event :: "task \<Rightarrow> string" where
  "task_event (HandlerTask event handler req resp) = event"
| "task_event (FallbackTask event req resp) = event"

fun task_run :: "FallbackEventHandler \<Rightarrow> task \<Rightarrow> bytes list \<Rightarrow> handler_run" where
  "task_run fallback (HandlerTask event handler req resp) request = handler request"
| "task_run fallback (FallbackTask event req resp) request = fallback event request"

fun resp_after :: "response \<Rightarrow> resp_call list \<Rightarrow> response" where
  "resp_after r [] = r"
| "resp_after r (c # cs) = resp_after (snd (resp_apply r c)) cs"

section \<open>The locator client\<close>

text \<open>
  The struct \<open>ResolveResult\<close> embeds \<open>Endpoint\<close>. A nil Go map is the empty map.
\<close>

record Endpoint =
  Host :: string
  Port :: int

record ResolveResult = Endpoint +
  success :: bool
  Version :: int
  API :: "int \<rightharpoonup> string"

definition zeroResolveResult :: ResolveResult where
  "zeroResolveResult =
     \<lparr>Host = [], Port = 0, success = False, Version = 0, API = Map.empty\<rparr>"

text \<open>
  Modelled from the spec: the type ids \<open>CHUNK\<close> and \<open>CHOKE\<close> are declared outside
  the locator's file; the numbers are those of the wire table.
\<close>

definition CHUNK :: nat where "CHUNK = 4"
definition CHOKE :: nat where "CHOKE = 6"

text \<open>
  The decoder of the serialization library is a parameter. On a chunk it fills a
  record, or returns an error and leaves the record as far as it got, or panics.
\<close>

datatype decoded =
    Decoded ResolveResult
  | DecodeError string ResolveResult
  | DecodePanic string

type_synonym decoder = "bytes \<Rightarrow> decoded"

text \<open>
  \<open>unpackchunk\<close> returns the record and the lines it logs. A panic of the decoder is
  recovered by the deferred function, and the unnamed result is then the zero record.
\<close>

definition unpackchunk :: "decoder \<Rightarrow> bytes \<Rightarrow> ResolveResult \<times> string list" where
  "unpackchunk dec chunk =
     (case dec chunk of
        Decoded res \<Rightarrow> (res, [])
      | DecodeError err res \<Rightarrow> (res, [''unpack chunk error '' @ err])
      | DecodePanic err \<Rightarrow> (zeroResolveResult, [''defer '' @ err]))"

text \<open>
  One receive from \<open>SocketIO.Read()\<close>, given by the messages the unpacker's \<open>Feed\<close>
  returns for it. Modelled from the spec: a closed read channel delivers empty
  answers, for which \<open>Feed\<close> has no message.
\<close>

datatype read = Answer "Message list" | Eof

fun msgs_of :: "read \<Rightarrow> Message list" where
  "msgs_of (Answer msgs) = msgs"
| "msgs_of Eof = []"

text \<open>The variables of the goroutine of \<open>Resolve\<close>, and the lines logged so far.\<close>

record resolve_vars =
  resolveresult :: ResolveResult
  closed :: bool
  log_lines :: "string list"

text \<open>
  The inner \<open>for\<close> over the messages of one answer. \<open>GetPayload()[0].([]byte)\<close>
  panics when the payload is empty or its first element is no byte blob; nothing
  recovers that panic, and the result is \<open>Aborted\<close> with the variables as they were
  then. The loop does not stop at a choke.
\<close>

datatype fed = Fed resolve_vars | Aborted resolve_vars

fun feed_items :: "decoder \<Rightarrow> resolve_vars \<Rightarrow> Message list \<Rightarrow> fed" where
  "feed_items dec v [] = Fed v"
| "feed_items dec v (item # items) =
     (if MsgType item = CHUNK then
        (case Payload item of
           VBytes chunk # _ \<Rightarrow>
             (let (res, lines) = unpackchunk dec chunk;
                  v = v\<lparr>resolveresult := res, log_lines := log_lines v @ lines\<rparr>;
                  v = v\<lparr>resolveresult := (resolveresult v)\<lparr>success := True\<rparr>\<rparr>
              in feed_items dec v items)
         | _ \<Rightarrow> Aborted v)
      else if MsgType item = CHOKE then feed_items dec (v\<lparr>closed := True\<rparr>) items
      else feed_items dec v items)"

text \<open>
  The outer \<open>for !closed\<close>, over the receives that happen. It ends at the send on
  \<open>Out\<close>, or is still receiving when the receives are used up, or has panicked.
\<close>

datatype goroutine = AtSend resolve_vars | AtRead resolve_vars | Dead resolve_vars

fun resolve_loop :: "decoder \<Rightarrow> resolve_vars \<Rightarrow> read list \<Rightarrow> goroutine" where
  "resolve_loop dec v [] = (if closed v then AtSend v else AtRead v)"
| "resolve_loop dec v (answer # rest) =
     (if closed v then AtSend v
      else (case feed_items dec v (msgs_of answer) of
              Aborted v' \<Rightarrow> Dead v'
            | Fed v' \<Rightarrow> resolve_loop dec v' rest))"

text \<open>
  A channel: the values sent on it and whether \<open>close\<close> was called on it. \<open>Resolve\<close>
  gives the channel \<open>Out\<close> it returns, the request it writes to the socket, the lines
  logged, and how the goroutine stands after the given receives.
\<close>

record 'a chan =
  sent :: "'a list"
  chan_closed :: bool

datatype status = Finished | Blocked | Crashed

record resolve_run =
  Out :: "ResolveResult chan"
  raw :: "Message list"
  logged :: "string list"
  state :: status

definition Resolve :: "decoder \<Rightarrow> string \<Rightarrow> read list \<Rightarrow> resolve_run" where
  "Resolve dec name reads =
     (let out = \<lparr>sent = [], chan_closed = False\<rparr>;
          vars = \<lparr>resolveresult = zeroResolveResult\<lparr>success := False\<rparr>,
                  closed = False, log_lines = []\<rparr>;
          msg = \<lparr>MsgType = 0, Session = 0, Payload = [VString name]\<rparr>
      in (case resolve_loop dec vars reads of
            AtSend v \<Rightarrow>
              \<lparr>Out = out\<lparr>sent := sent out @ [resolveresult v]\<rparr>, raw = [msg],
                logged = log_lines v, state = Finished\<rparr>
          | AtRead v \<Rightarrow> \<lparr>Out = out, raw = [msg], logged = log_lines v, state = Blocked\<rparr>
          | Dead v \<Rightarrow> \<lparr>Out = out, raw = [msg], logged = log_lines v, state = Crashed\<rparr>))"

text \<open>
  Readings of the receives: whether a choke is among some messages, the messages the
  loop processes (all of every answer up to and including the first answer with a
  choke), the byte blobs of the chunks among them, whether every chunk carries one,
  and the record that the last of some chunks leaves behind.
\<close>

fun has_choke :: "Message list \<Rightarrow> bool" where
  "has_choke [] = False"
| "has_choke (item # items) = (MsgType item = CHOKE \<or> has_choke items)"

fun processed :: "read list \<Rightarrow> Message list" where
  "processed [] = []"
| "processed (answer # rest) =
     (if has_choke (msgs_of answer) then msgs_of answer
      else msgs_of answer @ processed rest)"

fun chunks :: "Message list \<Rightarrow> bytes list" where
  "chunks [] = []"
| "chunks (item # items) =
     (if MsgType item = CHUNK then
        (case Payload item of
           VBytes chunk # _ \<Rightarrow> chunk # chunks items
         | _ \<Rightarrow> chunks items)
      else chunks items)"

fun chunks_ok :: "Message list \<Rightarrow> bool" where
  "chunks_ok [] = True"
| "chunks_ok (item # items) =
     ((if MsgType item = CHUNK
       then (case Payload item of VBytes chunk # _ \<Rightarrow> True | _ \<Rightarrow> False)
       else True) \<and> chunks_ok items)"

definition last_result :: "decoder \<Rightarrow> ResolveResult \<Rightarrow> bytes list \<Rightarrow> ResolveResult" where
  "last_result dec r cs =
     (if cs = [] then r else (fst (unpackchunk dec (last cs)))\<lparr>success := True\<rparr>)"

text \<open>The variables of the goroutine when it enters its loop.\<close>

definition resolve_init :: resolve_vars where
  "resolve_init = \<lparr>resolveresult = zeroResolveResult\<lparr>success := False\<rparr>,
                    closed = False, log_lines = []\<rparr>"

section \<open>Properties of the worker\<close>

lemmas msg_types =
  handshakeType_def heartbeatType_def terminateType_def invokeType_def
  chunkType_def errorType_def chokeType_def

lemmas worker_defs = newWorker_def sendHandshake_def conn_send_def conn_Close_def
  onHeartbeat_def onDisown_def onTerminate_def Stop_def yield_def Stop_check_def
  Stop_close_def isStopped_def close_chan_def
  newHandshake_def newHeartbeatMessage_def Let_def

subsection \<open>Stopping\<close>

lemma Stop_cases:
  "Stop w =
     (if stopped w then Inr w
      else if preempted w \<and> 0 < stoppers w then Inl CloseOfClosedChannel
      else Inr (w\<lparr>stopped := True, conn := conn_Close (conn w)\<rparr>))"
  by (simp add: Stop_def yield_def isStopped_def close_chan_def Let_def)

lemma Stop_quiet:
  "stoppers w = 0 \<Longrightarrow>
     Stop w = Inr (if stopped w then w else w\<lparr>stopped := True, conn := conn_Close (conn w)\<rparr>)"
  by (simp add: Stop_cases)

lemma onMessage_quiet:
  "stoppers w = 0 \<Longrightarrow> \<exists>w'. onMessage w msg = Inr w' \<and> stoppers w' = 0"
  by (simp add: onMessage_def onTerminate_def Stop_quiet Let_def split: option.split prod.split)

lemma onMessage_stopped: "onMessage w msg = Inr w' \<Longrightarrow> stopped w \<Longrightarrow> stopped w'"
  by (auto simp: onMessage_def onTerminate_def Stop_cases Let_def
      split: option.splits prod.splits if_splits)

lemma onMessage_terminate:
  "onMessage w msg = Inr w' \<Longrightarrow> MsgType msg = terminateType \<Longrightarrow> stopped w'"
  by (auto simp: onMessage_def onTerminate_def Stop_cases msg_types split: if_splits)

lemma onHeartbeat_stopped [simp]: "stopped (onHeartbeat w) = stopped w"
  by (simp add: onHeartbeat_def Let_def)

lemma onHeartbeat_stoppers [simp]: "stoppers (onHeartbeat w) = stoppers w"
  by (simp add: onHeartbeat_def Let_def)

text \<open>
  While no goroutine of the embedding program is inside \<open>Stop\<close> and none enters it,
  no step of the run panics.
\<close>

lemma loop_from_quiet:
  "stoppers w = 0 \<Longrightarrow> StopCheck \<notin> set evs \<Longrightarrow>
     loop_from err w evs \<noteq> LoopPanic p \<and> loop_from err w evs \<noteq> CallerPanic p"
proof (induction evs arbitrary: err w)
  case Nil
  show ?case by simp
next
  case (Cons ev evs)
  from Cons.prems have q: "StopCheck \<notin> set evs" by simp
  show ?case
  proof (cases ev)
    case (Recv msg)
    from onMessage_quiet [OF Cons.prems(1), of msg]
    obtain w' where w': "onMessage w msg = Inr w'" "stoppers w' = 0" by blast
    from Cons.IH [OF w'(2) q] w'(1) Recv show ?thesis by simp
  next
    case DisownTick
    have "stoppers (w\<lparr>disownTimer := Expired\<rparr>) = 0" using Cons.prems by simp
    from Stop_quiet [OF this] Cons.IH [OF _ q] Cons.prems(1) DisownTick
    show ?thesis by (simp add: onDisown_def)
  next
    case StopCheck
    with Cons.prems show ?thesis by simp
  qed (use Cons.IH [OF _ q] Cons.prems(1) in \<open>simp_all\<close>)
qed

subsection \<open>The error that the loop returns\<close>

text \<open>
  Whenever the loop returns, it returns \<open>ErrDisowned\<close> if the disown timer ticked
  before the loop took the closed \<open>stopped\<close> channel, and its initial error otherwise.
\<close>

lemma loop_from_Return:
  "loop_from err w evs = Return e w' \<Longrightarrow>
     e = (if DisownTick \<in> set (takeWhile (\<lambda>ev. ev \<noteq> StoppedSignal) evs)
          then Some ErrDisowned else err)"
proof (induction evs arbitrary: err w)
  case Nil
  then show ?case by simp
next
  case (Cons ev evs)
  show ?case
  proof (cases ev)
    case (Recv msg)
    then show ?thesis using Cons
      by (cases "onMessage w msg") (auto split: if_splits)
  next
    case DisownTick
    then show ?thesis using Cons.prems Cons.IH [of "Some ErrDisowned"]
      by (cases "onDisown (w\<lparr>disownTimer := Expired\<rparr>)") (auto split: if_splits)
  next
    case StopClose
    then show ?thesis using Cons
      by (cases "Stop_close w") (auto split: if_splits)
  qed (use Cons in \<open>auto split: if_splits\<close>)
qed

lemma loop_from_Selecting_quiet:
  "loop_from err w evs = Selecting e w' \<Longrightarrow> stoppers w = 0 \<Longrightarrow> StopCheck \<notin> set evs \<Longrightarrow>
     e = (if DisownTick \<in> set evs then Some ErrDisowned else err) \<and>
     (stopped w \<or> DisownTick \<in> set evs \<or> list_ex stop_requested evs \<longrightarrow> stopped w')"
proof (induction evs arbitrary: err w)
  case Nil
  then show ?case by simp
next
  case (Cons ev evs)
  from Cons.prems have q: "StopCheck \<notin> set evs" by simp
  show ?case
  proof (cases ev)
    case (Recv msg)
    from onMessage_quiet [OF Cons.prems(2), of msg]
    obtain w1 where w1: "onMessage w msg = Inr w1" "stoppers w1 = 0" by blast
    with Cons.prems(1) Recv have l: "loop_from err w1 evs = Selecting e w'" by simp
    from Cons.IH [OF l w1(2) q] onMessage_stopped [OF w1(1)] onMessage_terminate [OF w1(1)]
    show ?thesis using Recv by auto
  next
    case DisownTick
    let ?w1 = "if stopped w then w\<lparr>disownTimer := Expired\<rparr>
               else w\<lparr>disownTimer := Expired, stopped := True, conn := conn_Close (conn w)\<rparr>"
    have s: "onDisown (w\<lparr>disownTimer := Expired\<rparr>) = Inr ?w1"
      using Cons.prems(2) by (simp add: onDisown_def Stop_cases)
    with Cons.prems(1) DisownTick
    have l: "loop_from (Some ErrDisowned) ?w1 evs = Selecting e w'"
      by (simp split: if_splits)
    have "stoppers ?w1 = 0" "stopped ?w1" using Cons.prems(2) by simp_all
    from Cons.IH [OF l this(1) q] this(2) DisownTick show ?thesis by simp
  next
    case StopCheck
    with Cons.prems show ?thesis by simp
  next
    case StopClose
    with Cons.prems show ?thesis by simp
  qed (use Cons.prems Cons.IH [OF _ _ q] in \<open>auto split: if_splits\<close>)
qed

lemma loop_from_append:
  "loop_from err w (xs @ ys) =
     (case loop_from err w xs of Selecting e w' \<Rightarrow> loop_from e w' ys | r \<Rightarrow> r)"
proof (induction xs arbitrary: err w)
  case Nil
  show ?case by simp
next
  case (Cons ev xs)
  show ?case
  proof (cases ev)
    case (Recv msg)
    then show ?thesis using Cons.IH
      by (cases "onMessage w msg") auto
  next
    case DisownTick
    then show ?thesis using Cons.IH
      by (cases "onDisown (w\<lparr>disownTimer := Expired\<rparr>)") auto
  next
    case StopClose
    then show ?thesis using Cons.IH
      by (cases "Stop_close w") auto
  qed (use Cons.IH in \<open>auto\<close>)
qed

text \<open>
  The loop as it is meant to end. In a run during which the embedding program does not
  call \<open>Stop\<close>: after a tick of the disown timer the loop can take the closed
  \<open>stopped\<close> channel and then returns \<open>ErrDisowned\<close>; after a terminate frame and no
  tick of the disown timer it can take it as well and then returns nil.
\<close>

lemma quiet_run_exit_error:
  assumes "stoppers w = 0" and "StopCheck \<notin> set evs" and "selecting (Run w hs evs)"
  shows "(DisownTick \<in> set evs \<longrightarrow>
            returned (Run w hs (evs @ [StoppedSignal])) = Some (Some ErrDisowned)) \<and>
         (DisownTick \<notin> set evs \<and> list_ex stop_requested evs \<longrightarrow>
            returned (Run w hs (evs @ [StoppedSignal])) = Some None)"
proof -
  let ?w = "onHeartbeat (w\<lparr>handlers := handlers w ++ hs\<rparr>)"
  from assms(3) obtain e' w' where r: "loop_from None ?w evs = Selecting e' w'"
    unfolding Run_def loop_def by (cases "loop_from None ?w evs") auto
  have "stoppers ?w = 0" using assms(1) by simp
  from loop_from_Selecting_quiet [OF r this assms(2)] r
  show ?thesis
    unfolding Run_def loop_def by (auto simp: loop_from_append)
qed

text \<open>
  C1. The claim, that \<open>Run\<close> returns nil when the worker is stopped by \<open>Stop\<close> or by
  a terminate frame with no tick of the disown timer (and \<open>ErrDisowned\<close> after such a
  tick), fails on the code when a call of \<open>Stop\<close> by the embedding program overlaps
  the loop's own \<open>Stop\<close>, because \<open>Stop\<close> checks and closes in two unsynchronised
  steps. The caller passes the check, the loop handles a terminate frame and closes the
  channel, and the caller's \<open>close\<close> panics: the process ends and \<open>Run\<close> returns
  nothing. When the caller's \<open>close\<close> falls between the loop's check and the loop's
  \<open>close\<close>, the panic is in the loop itself, for a terminate frame as for a tick of the
  disown timer.
\<close>

theorem Stop_race_panics:
  "Run (newWorker \<lparr>written = [], sock_closed = False\<rparr> ''uuid'') Map.empty
      [StopCheck, Recv \<lparr>MsgType = terminateType, Session = 0, Payload = []\<rparr>, StopClose]
     = CallerPanic CloseOfClosedChannel \<and>
   returned (Run (newWorker \<lparr>written = [], sock_closed = False\<rparr> ''uuid'') Map.empty
      [StopCheck, Recv \<lparr>MsgType = terminateType, Session = 0, Payload = []\<rparr>, StopClose,
       StoppedSignal]) = None \<and>
   Run (newWorker \<lparr>written = [], sock_closed = False\<rparr> ''uuid'') Map.empty
      [StopCheck, Preempt, Recv \<lparr>MsgType = terminateType, Session = 0, Payload = []\<rparr>]
     = LoopPanic CloseOfClosedChannel \<and>
   Run (newWorker \<lparr>written = [], sock_closed = False\<rparr> ''uuid'') Map.empty
      [StopCheck, Preempt, DisownTick, StoppedSignal]
     = LoopPanic CloseOfClosedChannel"
  by (simp add: Run_def loop_def worker_defs onMessage_def msg_types)

subsection \<open>Heartbeats and timers\<close>

text \<open>
  C7. \<open>onHeartbeat\<close> sends a heartbeat frame (unless the socket is closed) and leaves
  the heartbeat timer armed with the heartbeat interval and the disown timer armed with
  the disown timeout. The loop calls it once at startup and at every tick of the
  heartbeat timer. An inbound heartbeat frame stops the disown timer.
\<close>

theorem heartbeat_timers:
  "heartbeatTimer (onHeartbeat w) = Armed heartbeatTimeout \<and>
   disownTimer (onHeartbeat w) = Armed disownTimeout \<and>
   written (conn (onHeartbeat w)) =
     (if sock_closed (conn w) then written (conn w)
      else written (conn w) @ [newHeartbeatMessage]) \<and>
   loop w [] = Selecting None (onHeartbeat w) \<and>
   (armed (heartbeatTimer w) \<longrightarrow>
      loop_from err w [HeartbeatTick]
        = Selecting err (onHeartbeat (w\<lparr>heartbeatTimer := Expired\<rparr>))) \<and>
   (MsgType msg = heartbeatType \<longrightarrow>
      onMessage w msg = Inr (w\<lparr>disownTimer := Stopped\<rparr>) \<and>
      \<not> armed (disownTimer (w\<lparr>disownTimer := Stopped\<rparr>)))"
  by (simp add: onHeartbeat_def conn_send_def loop_def onMessage_def msg_types Let_def)

theorem heartbeat_timers_witness:
  "armed (heartbeatTimer (onHeartbeat (newWorker \<lparr>written = [], sock_closed = False\<rparr> ''uuid''))) \<and>
   loop_from None (onHeartbeat (newWorker \<lparr>written = [], sock_closed = False\<rparr> ''uuid''))
       [HeartbeatTick]
     = Selecting None (onHeartbeat (onHeartbeat
         (newWorker \<lparr>written = [], sock_closed = False\<rparr> ''uuid'')\<lparr>heartbeatTimer := Expired\<rparr>)) \<and>
   MsgType newHeartbeatMessage = heartbeatType \<and>
   onMessage (onHeartbeat (newWorker \<lparr>written = [], sock_closed = False\<rparr> ''uuid''))
       newHeartbeatMessage
     = Inr (onHeartbeat (newWorker \<lparr>written = [], sock_closed = False\<rparr> ''uuid'')
              \<lparr>disownTimer := Stopped\<rparr>)"
proof -
  let ?w = "onHeartbeat (newWorker \<lparr>written = [], sock_closed = False\<rparr> ''uuid'')"
  have a: "armed (heartbeatTimer ?w)"
    by (simp add: worker_defs)
  have m: "MsgType newHeartbeatMessage = heartbeatType"
    by (simp add: newHeartbeatMessage_def)
  from a m heartbeat_timers [of ?w None newHeartbeatMessage]
  show ?thesis by simp
qed

text \<open>
  C8 (amended). The heartbeat interval is 10 seconds and the disown timeout is 5
  seconds. They are constants of the package: \<open>newWorker\<close> takes the connection and
  the id only and leaves both timers stopped, and \<open>onHeartbeat\<close> arms the timers with
  the two constants whatever the worker is.
\<close>

theorem timeouts_fixed:
  "heartbeatTimeout = 10 * Second \<and> disownTimeout = 5 * Second \<and>
   heartbeatTimer (newWorker c ident) = Stopped \<and>
   disownTimer (newWorker c ident) = Stopped \<and>
   heartbeatTimer (onHeartbeat w) = Armed (10 * Second) \<and>
   disownTimer (onHeartbeat w) = Armed (5 * Second)"
  by (simp add: heartbeatTimeout_def disownTimeout_def newWorker_def sendHandshake_def
      onHeartbeat_def Let_def)

text \<open>
  No choice of the arguments of \<open>newWorker\<close> makes the timers run with other values.
\<close>

theorem timeouts_not_configurable:
  "\<not> (\<exists>c ident. heartbeatTimer (onHeartbeat (newWorker c ident)) \<noteq> Armed (10 * Second)
         \<or> disownTimer (onHeartbeat (newWorker c ident)) \<noteq> Armed (5 * Second))"
  by (simp add: heartbeatTimeout_def disownTimeout_def onHeartbeat_def Let_def)

subsection \<open>The session table\<close>

lemma getEventName_ok:
  "snd (getEventName msg) = (\<exists>event rest. Payload msg = VString event # rest)"
  by (auto simp: getEventName_def split: list.splits pvalue.splits)

text \<open>
  C9. An invoke frame for which \<open>getEventName\<close> reports no event name leaves the
  worker as it is: no entry in the session table, no new stream, no task.
\<close>

theorem invoke_without_event_dropped:
  "MsgType msg = invokeType \<Longrightarrow> \<not> snd (getEventName msg) \<Longrightarrow> onMessage w msg = Inr w"
  by (cases "getEventName msg") (simp add: onMessage_def msg_types Let_def)

theorem invoke_without_event_dropped_witness:
  "MsgType \<lparr>MsgType = invokeType, Session = 7, Payload = [VInt 1]\<rparr> = invokeType \<and>
   \<not> snd (getEventName \<lparr>MsgType = invokeType, Session = 7, Payload = [VInt 1]\<rparr>) \<and>
   onMessage (newWorker \<lparr>written = [], sock_closed = False\<rparr> ''uuid'')
       \<lparr>MsgType = invokeType, Session = 7, Payload = [VInt 1]\<rparr>
     = Inr (newWorker \<lparr>written = [], sock_closed = False\<rparr> ''uuid'')"
proof -
  let ?m = "\<lparr>MsgType = invokeType, Session = 7, Payload = [VInt 1]\<rparr>"
  have t: "MsgType ?m = invokeType" by simp
  have n: "\<not> snd (getEventName ?m)" by (simp add: getEventName_def)
  from t n invoke_without_event_dropped [OF t n]
  show ?thesis by simp
qed

text \<open>
  C10 (amended). Processing a single inbound frame changes the session table only as
  follows. An invoke frame that carries an event name sets the entry of its own session
  to a new request stream: it adds the entry, or replaces the entry that the session
  already has; an invoke frame without an event name leaves the table as it is. A choke
  frame removes the entry of its own session, if there is one. Every other frame
  leaves the table as it is. The entry of any other session is never added, removed or
  replaced. Every frame but a terminate frame is processed to the end.
\<close>

theorem onMessage_sessions:
  "(MsgType msg \<noteq> terminateType \<longrightarrow> (\<exists>w''. onMessage w msg = Inr w'')) \<and>
   (onMessage w msg = Inr w' \<longrightarrow>
     (MsgType msg = invokeType \<longrightarrow>
        sessions w' = (if snd (getEventName msg)
                       then (sessions w)(Session msg \<mapsto> length (streams w))
                       else sessions w)) \<and>
     (MsgType msg = chokeType \<longrightarrow> sessions w' = (sessions w)(Session msg := None)) \<and>
     (MsgType msg \<noteq> invokeType \<and> MsgType msg \<noteq> chokeType \<longrightarrow> sessions w' = sessions w) \<and>
     (\<forall>s. s \<noteq> Session msg \<longrightarrow> sessions w' s = sessions w s))"
proof (intro conjI impI)
  assume "MsgType msg \<noteq> terminateType"
  then show "\<exists>w''. onMessage w msg = Inr w''"
    by (simp add: onMessage_def Let_def split: option.split prod.split)
next
  assume "onMessage w msg = Inr w'" and "MsgType msg = invokeType"
  then show "sessions w' = (if snd (getEventName msg)
                       then (sessions w)(Session msg \<mapsto> length (streams w))
                       else sessions w)"
    by (auto simp: onMessage_def msg_types Let_def split: option.splits prod.splits)
next
  assume "onMessage w msg = Inr w'" and "MsgType msg = chokeType"
  then show "sessions w' = (sessions w)(Session msg := None)"
    by (auto simp: onMessage_def msg_types split: option.splits)
next
  assume "onMessage w msg = Inr w'"
    and "MsgType msg \<noteq> invokeType \<and> MsgType msg \<noteq> chokeType"
  then show "sessions w' = sessions w"
    by (auto simp: onMessage_def onTerminate_def Stop_cases Let_def
        split: option.splits if_splits)
next
  assume "onMessage w msg = Inr w'"
  then show "\<forall>s. s \<noteq> Session msg \<longrightarrow> sessions w' s = sessions w s"
    by (auto simp: onMessage_def onTerminate_def Stop_cases Let_def
        split: option.splits prod.splits if_splits)
qed

theorem onMessage_sessions_witness:
  "MsgType \<lparr>MsgType = chokeType, Session = 7, Payload = []\<rparr> = chokeType \<and>
   MsgType \<lparr>MsgType = chokeType, Session = 7, Payload = []\<rparr> \<noteq> terminateType \<and>
   8 \<noteq> Session \<lparr>MsgType = chokeType, Session = 7, Payload = []\<rparr> \<and>
   (\<exists>w'. onMessage ((newWorker \<lparr>written = [], sock_closed = False\<rparr> ''uuid'')
                \<lparr>sessions := [7 \<mapsto> 0, 8 \<mapsto> 1], streams := [newRequest, newRequest]\<rparr>)
             \<lparr>MsgType = chokeType, Session = 7, Payload = []\<rparr> = Inr w' \<and>
          sessions w' = [7 \<mapsto> 0, 8 \<mapsto> 1](7 := None) \<and> sessions w' 8 = Some 1)"
proof -
  let ?w = "(newWorker \<lparr>written = [], sock_closed = False\<rparr> ''uuid'')
                \<lparr>sessions := [7 \<mapsto> 0, 8 \<mapsto> 1], streams := [newRequest, newRequest]\<rparr>"
  let ?m = "\<lparr>MsgType = chokeType, Session = 7, Payload = []\<rparr>"
  have t: "MsgType ?m \<noteq> terminateType" by (simp add: msg_types)
  with onMessage_sessions [of ?m ?w]
  obtain w' where w': "onMessage ?w ?m = Inr w'" by blast
  with onMessage_sessions [of ?m ?w w']
  have c: "MsgType ?m = chokeType \<longrightarrow> sessions w' = (sessions ?w)(Session ?m := None)"
    and o: "\<forall>s. s \<noteq> Session ?m \<longrightarrow> sessions w' s = sessions ?w s"
    by blast+
  from c have "sessions w' = [7 \<mapsto> 0, 8 \<mapsto> 1](7 := None)" by simp
  moreover from o have "sessions w' 8 = Some 1" by simp
  ultimately show ?thesis using w' t by simp
qed

text \<open>
  The claim as stated fails: it lets an invoke frame only add an entry. Session 9 has
  an entry (stream 0); an invoke frame for session 9 leaves the table with the same
  sessions, and the entry of session 9 is replaced by stream 1.
\<close>

theorem onMessage_sessions_counterexample:
  "sessions ((newWorker \<lparr>written = [], sock_closed = False\<rparr> ''uuid'')
               \<lparr>sessions := [9 \<mapsto> 0], streams := [newRequest]\<rparr>) 9 = Some 0 \<and>
   (\<exists>w'. onMessage ((newWorker \<lparr>written = [], sock_closed = False\<rparr> ''uuid'')
               \<lparr>sessions := [9 \<mapsto> 0], streams := [newRequest]\<rparr>)
            \<lparr>MsgType = invokeType, Session = 9, Payload = [VString ''ping'']\<rparr> = Inr w' \<and>
      sessions w' 9 = Some 1 \<and>
      dom (sessions w') = dom (sessions ((newWorker \<lparr>written = [], sock_closed = False\<rparr> ''uuid'')
               \<lparr>sessions := [9 \<mapsto> 0], streams := [newRequest]\<rparr>)))"
  by (simp add: onMessage_def msg_types getEventName_def worker_defs)

text \<open>
  The references of the session table stay inside the store of the streams.
\<close>

lemma onMessage_refs_valid:
  "onMessage w msg = Inr w' \<Longrightarrow>
   \<forall>s r. sessions w s = Some r \<longrightarrow> r < length (streams w) \<Longrightarrow>
   \<forall>s r. sessions w' s = Some r \<longrightarrow> r < length (streams w')"
  by (auto simp: onMessage_def onTerminate_def Stop_cases msg_types Let_def less_Suc_eq
      split: option.splits prod.splits if_splits)

text \<open>
  C2 (amended). The session table is a Go map, so it holds at most one entry per
  session id. An invoke frame that carries an event name and arrives for a session
  with a live entry is processed like any other invoke frame: a new request stream is
  created and replaces the entry of the session, the stream of the old entry is left
  as it was (it is not closed), and one task is spawned, for the handler of the event
  or for the fallback handler.
\<close>

theorem duplicate_invoke_replaces:
  "MsgType msg = invokeType \<Longrightarrow> getEventName msg = (event, True) \<Longrightarrow>
   sessions w (Session msg) = Some old \<Longrightarrow> old < length (streams w) \<Longrightarrow>
   \<exists>w'. onMessage w msg = Inr w' \<and>
     sessions w' = (sessions w)(Session msg \<mapsto> length (streams w)) \<and>
     length (streams w) \<noteq> old \<and>
     streams w' = streams w @ [newRequest] \<and>
     streams w' ! old = streams w ! old \<and>
     spawned w' = spawned w @
       [case handlers w event of
          None \<Rightarrow> FallbackTask event (length (streams w)) (newResponse (Session msg))
        | Some handler \<Rightarrow>
            HandlerTask event handler (length (streams w)) (newResponse (Session msg))]"
  by (simp add: onMessage_def msg_types Let_def nth_append split: option.split)

theorem duplicate_invoke_replaces_witness:
  "MsgType \<lparr>MsgType = invokeType, Session = 7, Payload = [VString ''echo'']\<rparr> = invokeType \<and>
   getEventName \<lparr>MsgType = invokeType, Session = 7, Payload = [VString ''echo'']\<rparr>
     = (''echo'', True) \<and>
   sessions ((newWorker \<lparr>written = [], sock_closed = False\<rparr> ''uuid'')
               \<lparr>sessions := [7 \<mapsto> 0], streams := [newRequest]\<rparr>) 7 = Some 0 \<and>
   (\<exists>w'. onMessage ((newWorker \<lparr>written = [], sock_closed = False\<rparr> ''uuid'')
               \<lparr>sessions := [7 \<mapsto> 0], streams := [newRequest]\<rparr>)
            \<lparr>MsgType = invokeType, Session = 7, Payload = [VString ''echo'']\<rparr> = Inr w' \<and>
      sessions w' = [7 \<mapsto> 1] \<and> streams w' = [newRequest, newRequest])"
proof -
  let ?w = "(newWorker \<lparr>written = [], sock_closed = False\<rparr> ''uuid'')
               \<lparr>sessions := [7 \<mapsto> 0], streams := [newRequest]\<rparr>"
  let ?m = "\<lparr>MsgType = invokeType, Session = 7, Payload = [VString ''echo'']\<rparr>"
  have a: "MsgType ?m = invokeType" by simp
  have b: "getEventName ?m = (''echo'', True)" by (simp add: getEventName_def)
  have c: "sessions ?w (Session ?m) = Some 0" by simp
  have d: "0 < length (streams ?w)" by simp
  from duplicate_invoke_replaces [OF a b c d] a b c
  show ?thesis by auto
qed

text \<open>
  The claim as stated fails: session 7 has a live entry (stream 0), a second invoke
  frame for session 7 arrives, and the worker installs a new stream (stream 1) for the
  session and spawns a task.
\<close>

theorem duplicate_invoke_counterexample:
  "sessions ((newWorker \<lparr>written = [], sock_closed = False\<rparr> ''uuid'')
               \<lparr>sessions := [7 \<mapsto> 0], streams := [newRequest]\<rparr>) 7 = Some 0 \<and>
   (\<exists>w'. onMessage ((newWorker \<lparr>written = [], sock_closed = False\<rparr> ''uuid'')
               \<lparr>sessions := [7 \<mapsto> 0], streams := [newRequest]\<rparr>)
            \<lparr>MsgType = invokeType, Session = 7, Payload = [VString ''echo'']\<rparr> = Inr w' \<and>
      sessions w' 7 = Some 1 \<and>
      streams w' = [newRequest, newRequest] \<and>
      spawned w' = [FallbackTask ''echo'' 1 (newResponse 7)])"
  by (simp add: onMessage_def msg_types getEventName_def worker_defs)

subsection \<open>Tasks and the panic trap\<close>

lemma resp_frames_append:
  "resp_frames r (xs @ ys) = resp_frames r xs @ resp_frames (resp_after r xs) ys"
  by (induction xs arbitrary: r) (auto split: prod.splits)

lemma resp_apply_session [simp]: "resp_session (snd (resp_apply r c)) = resp_session r"
  by (cases c) simp_all

lemma resp_after_session [simp]: "resp_session (resp_after r cs) = resp_session r"
  by (induction cs arbitrary: r) simp_all

lemma task_calls_run:
  "task_calls fb t request =
     calls (task_run fb t request) @ recoverTrap (task_event t) (ending (task_run fb t request))"
  by (cases t) (simp_all add: callHandler_def callFallbackHandler_def Let_def)

lemma onMessage_spawned:
  "onMessage w msg = Inr w' \<Longrightarrow> t \<in> set (spawned w') \<Longrightarrow> t \<notin> set (spawned w) \<Longrightarrow>
     MsgType msg = invokeType \<and> task_response t = newResponse (Session msg) \<and>
     task_event t = fst (getEventName msg)"
  by (auto simp: onMessage_def onTerminate_def Stop_cases msg_types Let_def
      split: option.splits prod.splits if_splits)

text \<open>
  C3 (amended). When the handler of a spawned task (a registered handler or the
  fallback handler) panics while the response stream of the task is not finished, the
  panic is trapped and converted into an error frame on the task's session carrying
  code 100 and the message \<open>Error in event: '<event>', exception: <panic text>\<close>,
  followed by a choke frame on that session; both come after the frames of the handler.
  If the handler has finished the stream already (by \<open>Close\<close> or \<open>ErrorMsg\<close>), the
  trap's call is a no-op and the task sends nothing more. The response stream of a
  task spawned for a frame is a fresh one bound to the frame's session. In a run during
  which the embedding program does not call \<open>Stop\<close>, nothing panics: neither the loop
  nor the process.
\<close>

theorem panic_trapped:
  "(ending (task_run fb t request) = Panicked info \<longrightarrow>
      task_frames fb t request =
        resp_frames (task_response t) (calls (task_run fb t request)) @
        (if finished (resp_after (task_response t) (calls (task_run fb t request))) then []
         else [newError (resp_session (task_response t)) 100
                 (''Error in event: '' @ [CHR 0x27] @ task_event t @ [CHR 0x27]
                    @ '', exception: '' @ info),
               newChoke (resp_session (task_response t))])) \<and>
   (onMessage w msg = Inr w' \<and> t \<in> set (spawned w') \<and> t \<notin> set (spawned w) \<longrightarrow>
      task_response t = newResponse (Session msg)) \<and>
   (stoppers w = 0 \<and> StopCheck \<notin> set evs \<longrightarrow>
      Run w hs evs \<noteq> LoopPanic p \<and> Run w hs evs \<noteq> CallerPanic p)"
proof (intro conjI impI)
  assume "ending (task_run fb t request) = Panicked info"
  then show "task_frames fb t request =
        resp_frames (task_response t) (calls (task_run fb t request)) @
        (if finished (resp_after (task_response t) (calls (task_run fb t request))) then []
         else [newError (resp_session (task_response t)) 100
                 (''Error in event: '' @ [CHR 0x27] @ task_event t @ [CHR 0x27]
                    @ '', exception: '' @ info),
               newChoke (resp_session (task_response t))])"
    by (simp add: task_frames_def task_calls_run resp_frames_append recoverTrap_def
        ErrorPanicInHandler_def)
next
  assume "onMessage w msg = Inr w' \<and> t \<in> set (spawned w') \<and> t \<notin> set (spawned w)"
  then show "task_response t = newResponse (Session msg)"
    using onMessage_spawned by blast
next
  assume a: "stoppers w = 0 \<and> StopCheck \<notin> set evs"
  then have "stoppers (onHeartbeat (w\<lparr>handlers := handlers w ++ hs\<rparr>)) = 0" by simp
  from loop_from_quiet [OF this] a
  show "Run w hs evs \<noteq> LoopPanic p" "Run w hs evs \<noteq> CallerPanic p"
    unfolding Run_def loop_def by blast+
qed

theorem panic_trapped_witness:
  "(\<exists>w'. onMessage
            (On (newWorker \<lparr>written = [], sock_closed = False\<rparr> ''uuid'') ''explode''
               (\<lambda>request. \<lparr>calls = [Write [1]], ending = Panicked ''boom''\<rparr>))
            \<lparr>MsgType = invokeType, Session = 5, Payload = [VString ''explode'']\<rparr> = Inr w' \<and>
      spawned w' = [HandlerTask ''explode''
         (\<lambda>request. \<lparr>calls = [Write [1]], ending = Panicked ''boom''\<rparr>) 0 (newResponse 5)]) \<and>
   ending (task_run DefaultFallbackEventHandler
     (HandlerTask ''explode'' (\<lambda>request. \<lparr>calls = [Write [1]], ending = Panicked ''boom''\<rparr>)
        0 (newResponse 5)) []) = Panicked ''boom'' \<and>
   task_frames DefaultFallbackEventHandler
     (HandlerTask ''explode'' (\<lambda>request. \<lparr>calls = [Write [1]], ending = Panicked ''boom''\<rparr>)
        0 (newResponse 5)) []
     = [newChunk 5 [1],
        newError 5 100
         (''Error in event: '' @ [CHR 0x27] @ ''explode'' @ [CHR 0x27] @ '', exception: boom''),
        newChoke 5] \<and>
   stoppers (newWorker \<lparr>written = [], sock_closed = False\<rparr> ''uuid'') = 0 \<and>
   StopCheck \<notin> set [Recv \<lparr>MsgType = terminateType, Session = 0, Payload = []\<rparr>, DisownTick] \<and>
   Run (newWorker \<lparr>written = [], sock_closed = False\<rparr> ''uuid'') Map.empty
      [Recv \<lparr>MsgType = terminateType, Session = 0, Payload = []\<rparr>, DisownTick]
     \<noteq> LoopPanic CloseOfClosedChannel"
proof -
  let ?h = "\<lambda>request::bytes list. \<lparr>calls = [Write [1]], ending = Panicked ''boom''\<rparr>"
  let ?t = "HandlerTask ''explode'' ?h 0 (newResponse 5)"
  let ?base = "newWorker \<lparr>written = [], sock_closed = False\<rparr> ''uuid''"
  let ?w = "On ?base ''explode'' ?h"
  let ?m = "\<lparr>MsgType = invokeType, Session = 5, Payload = [VString ''explode'']\<rparr>"
  let ?evs = "[Recv \<lparr>MsgType = terminateType, Session = 0, Payload = []\<rparr>, DisownTick]"
  have s: "\<exists>w'. onMessage ?w ?m = Inr w' \<and> spawned w' = [?t]"
    by (simp add: onMessage_def msg_types getEventName_def On_def worker_defs)
  have e: "ending (task_run DefaultFallbackEventHandler ?t []) = Panicked ''boom''"
    by simp
  have q: "stoppers ?base = 0" "StopCheck \<notin> set ?evs"
    by (simp_all add: worker_defs)
  note th = panic_trapped [of DefaultFallbackEventHandler ?t "[]" "''boom''" ?base _ _ ?evs
      Map.empty CloseOfClosedChannel]
  from e th
  have f: "task_frames DefaultFallbackEventHandler ?t []
     = [newChunk 5 [1],
        newError 5 100
         (''Error in event: '' @ [CHR 0x27] @ ''explode'' @ [CHR 0x27] @ '', exception: boom''),
        newChoke 5]"
    by (simp add: newResponse_def)
  from q th have "Run ?base Map.empty ?evs \<noteq> LoopPanic CloseOfClosedChannel"
    by blast
  with s e f q show ?thesis by simp
qed

text \<open>
  The claim as stated fails twice. A handler that closes its response stream and then
  panics leaves the choke frame of its own \<open>Close\<close> only: the trap sends no error
  frame. And the loop itself panics when a call of \<open>Stop\<close> by the embedding program
  has passed its check and runs its \<open>close\<close> in the middle of the \<open>Stop\<close> that the
  loop runs at a tick of the disown timer.
\<close>

theorem panic_trapped_counterexample:
  "task_frames DefaultFallbackEventHandler
     (HandlerTask ''explode'' (\<lambda>request. \<lparr>calls = [Close], ending = Panicked ''boom''\<rparr>)
        0 (newResponse 5)) []
     = [newChoke 5] \<and>
   Run (newWorker \<lparr>written = [], sock_closed = False\<rparr> ''uuid'') Map.empty
      [StopCheck, Preempt, DisownTick]
     = LoopPanic CloseOfClosedChannel"
  by (simp add: task_frames_def callHandler_def recoverTrap_def newResponse_def
      ErrorPanicInHandler_def Run_def loop_def worker_defs)

text \<open>
  C4. For an invoke frame that names an event with no registered handler the worker
  spawns the fallback task on a fresh response stream of the frame's session. The
  default fallback handler calls \<open>ErrorMsg\<close> with code 200 and the message
  \<open>There is no handler for event <event>\<close>; the task puts the error frame with this
  code and message on the session, followed by a choke frame on the session.
\<close>

theorem unknown_event_fallback:
  "MsgType msg = invokeType \<Longrightarrow> getEventName msg = (event, True) \<Longrightarrow>
   handlers w event = None \<Longrightarrow>
   \<exists>w'. onMessage w msg = Inr w' \<and>
     spawned w' = spawned w
        @ [FallbackTask event (length (streams w)) (newResponse (Session msg))] \<and>
     fallbackHandler w' = fallbackHandler w \<and>
     (fallbackHandler w = DefaultFallbackEventHandler \<longrightarrow>
        task_frames (fallbackHandler w')
            (FallbackTask event (length (streams w)) (newResponse (Session msg))) request
          = [newError (Session msg) 200 (''There is no handler for event '' @ event),
             newChoke (Session msg)])"
  by (simp add: onMessage_def msg_types Let_def task_frames_def callFallbackHandler_def
      DefaultFallbackEventHandler_def recoverTrap_def newResponse_def ErrorNoEventHandler_def)

theorem unknown_event_fallback_witness:
  "MsgType \<lparr>MsgType = invokeType, Session = 3, Payload = [VString ''missing'']\<rparr> = invokeType \<and>
   getEventName \<lparr>MsgType = invokeType, Session = 3, Payload = [VString ''missing'']\<rparr>
     = (''missing'', True) \<and>
   handlers (newWorker \<lparr>written = [], sock_closed = False\<rparr> ''uuid'') ''missing'' = None \<and>
   fallbackHandler (newWorker \<lparr>written = [], sock_closed = False\<rparr> ''uuid'')
     = DefaultFallbackEventHandler \<and>
   (\<exists>w'. onMessage (newWorker \<lparr>written = [], sock_closed = False\<rparr> ''uuid'')
            \<lparr>MsgType = invokeType, Session = 3, Payload = [VString ''missing'']\<rparr> = Inr w' \<and>
      spawned w' = [FallbackTask ''missing'' 0 (newResponse 3)] \<and>
      task_frames (fallbackHandler w') (FallbackTask ''missing'' 0 (newResponse 3)) []
        = [newError 3 200 ''There is no handler for event missing'', newChoke 3])"
proof -
  let ?w = "newWorker \<lparr>written = [], sock_closed = False\<rparr> ''uuid''"
  let ?m = "\<lparr>MsgType = invokeType, Session = 3, Payload = [VString ''missing'']\<rparr>"
  have a: "MsgType ?m = invokeType" by simp
  have b: "getEventName ?m = (''missing'', True)" by (simp add: getEventName_def)
  have c: "handlers ?w ''missing'' = None" by (simp add: worker_defs)
  have d: "fallbackHandler ?w = DefaultFallbackEventHandler" by (simp add: worker_defs)
  have e: "streams ?w = []" "spawned ?w = []" by (simp_all add: worker_defs)
  from unknown_event_fallback [OF a b c, of "[]"] a b c d e
  show ?thesis by auto
qed

section \<open>Properties of the locator client\<close>

lemmas resolve_defs =
  Resolve_def unpackchunk_def zeroResolveResult_def CHUNK_def CHOKE_def Let_def

lemma last_result_Nil [simp]: "last_result dec r [] = r"
  by (simp add: last_result_def)

lemma last_result_Cons [simp]:
  "last_result dec r (c # cs)
     = last_result dec ((fst (unpackchunk dec c))\<lparr>success := True\<rparr>) cs"
  by (simp add: last_result_def)

lemma last_result_append [simp]:
  "last_result dec r (cs @ ds) = last_result dec (last_result dec r cs) ds"
  by (induction cs arbitrary: r) simp_all

lemma chunks_append [simp]: "chunks (xs @ ys) = chunks xs @ chunks ys"
  by (induction xs) (auto split: list.splits pvalue.splits)

lemma chunks_ok_append [simp]: "chunks_ok (xs @ ys) = (chunks_ok xs \<and> chunks_ok ys)"
  by (induction xs) (auto split: list.splits pvalue.splits)

lemma has_choke_append [simp]: "has_choke (xs @ ys) = (has_choke xs \<or> has_choke ys)"
  by (induction xs) auto

subsection \<open>The inner loop\<close>

lemma feed_items_Fed:
  "feed_items dec v items = Fed v' \<Longrightarrow>
     chunks_ok items \<and>
     closed v' = (closed v \<or> has_choke items) \<and>
     resolveresult v' = last_result dec (resolveresult v) (chunks items) \<and>
     log_lines v' = log_lines v @ concat (map (\<lambda>c. snd (unpackchunk dec c)) (chunks items))"
proof (induction items arbitrary: v)
  case Nil
  then show ?case by simp
next
  case (Cons item items)
  show ?case
  proof (cases "MsgType item = CHUNK")
    case True
    with Cons.prems obtain chunk rest where p: "Payload item = VBytes chunk # rest"
      by (auto split: list.splits pvalue.splits)
    obtain res lines where u: "unpackchunk dec chunk = (res, lines)"
      by (cases "unpackchunk dec chunk")
    from Cons.prems True p u
    have "feed_items dec
            (v\<lparr>log_lines := log_lines v @ lines, resolveresult := res\<lparr>success := True\<rparr>\<rparr>) items
          = Fed v'"
      by simp
    from Cons.IH [OF this] True p u show ?thesis by (simp add: CHUNK_def CHOKE_def)
  next
    case False
    with Cons.prems Cons.IH show ?thesis
      by (auto simp: CHUNK_def CHOKE_def split: if_splits)
  qed
qed

lemma feed_items_Aborted:
  "feed_items dec v items = Aborted v' \<Longrightarrow> \<not> chunks_ok items"
  by (induction items arbitrary: v) (auto split: if_splits list.splits pvalue.splits prod.splits)

subsection \<open>The outer loop\<close>

lemma resolve_loop_AtSend:
  "resolve_loop dec v reads = AtSend v' \<Longrightarrow> \<not> closed v \<Longrightarrow>
     has_choke (processed reads) \<and>
     resolveresult v' = last_result dec (resolveresult v) (chunks (processed reads)) \<and>
     log_lines v' = log_lines v
        @ concat (map (\<lambda>c. snd (unpackchunk dec c)) (chunks (processed reads)))"
proof (induction reads arbitrary: v)
  case Nil
  then show ?case by simp
next
  case (Cons answer rest)
  from Cons.prems obtain v1 where f: "feed_items dec v (msgs_of answer) = Fed v1"
    and l: "resolve_loop dec v1 rest = AtSend v'"
    by (auto split: fed.splits)
  note s = feed_items_Fed [OF f]
  show ?case
  proof (cases "has_choke (msgs_of answer)")
    case True
    with s Cons.prems have "closed v1" by simp
    with l have "v' = v1" by (cases rest) auto
    with s True show ?thesis by simp
  next
    case False
    with s Cons.prems have "\<not> closed v1" by simp
    from Cons.IH [OF l this] s False show ?thesis by simp
  qed
qed

lemma resolve_loop_choke:
  "has_choke (processed reads) \<Longrightarrow> chunks_ok (processed reads) \<Longrightarrow>
     \<exists>v'. resolve_loop dec v reads = AtSend v'"
proof (induction reads arbitrary: v)
  case Nil
  then show ?case by simp
next
  case (Cons answer rest)
  show ?case
  proof (cases "closed v")
    case True
    then show ?thesis by simp
  next
    case nc: False
    from Cons.prems have ok: "chunks_ok (msgs_of answer)" by (auto split: if_splits)
    then obtain v1 where f: "feed_items dec v (msgs_of answer) = Fed v1"
      using feed_items_Aborted [of dec v "msgs_of answer"]
      by (cases "feed_items dec v (msgs_of answer)") auto
    note s = feed_items_Fed [OF f]
    show ?thesis
    proof (cases "has_choke (msgs_of answer)")
      case True
      with s have "closed v1" by simp
      then have "resolve_loop dec v1 rest = AtSend v1" by (cases rest) auto
      with f nc show ?thesis by simp
    next
      case False
      with Cons.prems have "has_choke (processed rest)" "chunks_ok (processed rest)" by auto
      from Cons.IH [OF this, of v1] f nc show ?thesis by simp
    qed
  qed
qed

lemma Resolve_cases:
  "Resolve dec name reads =
     (case resolve_loop dec resolve_init reads of
        AtSend v \<Rightarrow>
          \<lparr>Out = \<lparr>sent = [resolveresult v], chan_closed = False\<rparr>,
            raw = [\<lparr>MsgType = 0, Session = 0, Payload = [VString name]\<rparr>],
            logged = log_lines v, state = Finished\<rparr>
      | AtRead v \<Rightarrow>
          \<lparr>Out = \<lparr>sent = [], chan_closed = False\<rparr>,
            raw = [\<lparr>MsgType = 0, Session = 0, Payload = [VString name]\<rparr>],
            logged = log_lines v, state = Blocked\<rparr>
      | Dead v \<Rightarrow>
          \<lparr>Out = \<lparr>sent = [], chan_closed = False\<rparr>,
            raw = [\<lparr>MsgType = 0, Session = 0, Payload = [VString name]\<rparr>],
            logged = log_lines v, state = Crashed\<rparr>)"
  by (simp add: Resolve_def resolve_init_def Let_def split: goroutine.split)

lemma resolve_init_simps [simp]:
  "\<not> closed resolve_init" "resolveresult resolve_init = zeroResolveResult"
  "log_lines resolve_init = []"
  by (simp_all add: resolve_init_def zeroResolveResult_def)

subsection \<open>The result of a resolution\<close>

text \<open>
  C5 (amended). When \<open>Resolve\<close> sends its result, the result is what \<open>unpackchunk\<close>
  returned for the last chunk frame processed, with \<open>success = true\<close>: the decoded
  record when the decoder succeeded, the record as the failed decoder left it when the
  decoder returned an error, the zero record when the decoder panicked. A failure is
  logged, and the chunk is not ignored: it replaces the result of the chunks before it.
  \<open>success\<close> is false exactly when no chunk frame was processed. The frames processed
  are all frames of every answer up to and including the answer that carries the choke.
\<close>

theorem Resolve_result:
  "state (Resolve dec name reads) = Finished \<Longrightarrow>
     sent (Out (Resolve dec name reads))
       = [last_result dec zeroResolveResult (chunks (processed reads))] \<and>
     success (last_result dec zeroResolveResult (chunks (processed reads)))
       = (chunks (processed reads) \<noteq> []) \<and>
     logged (Resolve dec name reads)
       = concat (map (\<lambda>c. snd (unpackchunk dec c)) (chunks (processed reads)))"
proof -
  assume a: "state (Resolve dec name reads) = Finished"
  then obtain v where l: "resolve_loop dec resolve_init reads = AtSend v"
    by (cases "resolve_loop dec resolve_init reads") (simp_all add: Resolve_cases)
  from resolve_loop_AtSend [OF l] l
  show ?thesis
    by (simp add: Resolve_cases last_result_def zeroResolveResult_def)
qed

theorem Resolve_result_witness:
  "state (Resolve
      (\<lambda>c. if c = [1]
            then Decoded \<lparr>Host = ''h'', Port = 9, success = False, Version = 1,
                           API = [0 \<mapsto> ''m'']\<rparr>
            else DecodeError ''EOF'' zeroResolveResult)
      ''svc''
      [Answer [\<lparr>MsgType = CHUNK, Session = 0, Payload = [VBytes [1]]\<rparr>],
       Answer [\<lparr>MsgType = CHOKE, Session = 0, Payload = []\<rparr>]]) = Finished \<and>
   sent (Out (Resolve
      (\<lambda>c. if c = [1]
            then Decoded \<lparr>Host = ''h'', Port = 9, success = False, Version = 1,
                           API = [0 \<mapsto> ''m'']\<rparr>
            else DecodeError ''EOF'' zeroResolveResult)
      ''svc''
      [Answer [\<lparr>MsgType = CHUNK, Session = 0, Payload = [VBytes [1]]\<rparr>],
       Answer [\<lparr>MsgType = CHOKE, Session = 0, Payload = []\<rparr>]]))
     = [\<lparr>Host = ''h'', Port = 9, success = True, Version = 1, API = [0 \<mapsto> ''m'']\<rparr>]"
proof -
  let ?dec = "\<lambda>c::bytes. if c = [1]
            then Decoded \<lparr>Host = ''h'', Port = 9, success = False, Version = 1,
                           API = [0 \<mapsto> ''m'']\<rparr>
            else DecodeError ''EOF'' zeroResolveResult"
  let ?reads = "[Answer [\<lparr>MsgType = CHUNK, Session = 0, Payload = [VBytes [1]]\<rparr>],
       Answer [\<lparr>MsgType = CHOKE, Session = 0, Payload = []\<rparr>]]"
  have f: "state (Resolve ?dec ''svc'' ?reads) = Finished"
    by (simp add: resolve_defs)
  have c: "chunks (processed ?reads) = [[1]]"
    by (simp add: CHUNK_def CHOKE_def)
  from Resolve_result [OF f] f c
  show ?thesis by (simp add: unpackchunk_def)
qed

text \<open>
  The claim as stated fails. With a decoder that decodes the chunk \<open>[1]\<close> and fails
  on every other chunk: after a good chunk and a bad one the result is the zero record
  that the failed decoding left, with \<open>success = true\<close>, and not the record of the good
  chunk; after a bad chunk alone \<open>success\<close> is true although no chunk was decoded.
\<close>

theorem Resolve_result_counterexample:
  "sent (Out (Resolve
      (\<lambda>c. if c = [1]
            then Decoded \<lparr>Host = ''h'', Port = 9, success = False, Version = 1,
                           API = [0 \<mapsto> ''m'']\<rparr>
            else DecodeError ''EOF'' zeroResolveResult)
      ''svc''
      [Answer [\<lparr>MsgType = CHUNK, Session = 0, Payload = [VBytes [1]]\<rparr>,
               \<lparr>MsgType = CHUNK, Session = 0, Payload = [VBytes [2]]\<rparr>,
               \<lparr>MsgType = CHOKE, Session = 0, Payload = []\<rparr>]]))
     = [zeroResolveResult\<lparr>success := True\<rparr>] \<and>
   Version (zeroResolveResult\<lparr>success := True\<rparr>) \<noteq> 1 \<and>
   sent (Out (Resolve
      (\<lambda>c. if c = [1]
            then Decoded \<lparr>Host = ''h'', Port = 9, success = False, Version = 1,
                           API = [0 \<mapsto> ''m'']\<rparr>
            else DecodeError ''EOF'' zeroResolveResult)
      ''svc''
      [Answer [\<lparr>MsgType = CHUNK, Session = 0, Payload = [VBytes [2]]\<rparr>,
               \<lparr>MsgType = CHOKE, Session = 0, Payload = []\<rparr>]]))
     = [zeroResolveResult\<lparr>success := True\<rparr>]"
  by (simp add: resolve_defs)

text \<open>
  C6 (amended). \<open>Resolve\<close> never closes the channel it returns, and sends at most one
  value on it. It sends exactly one value once a choke frame has been processed
  (every chunk frame processed carrying a byte blob), and nothing before that. When the
  choke arrives before any chunk, the value sent has \<open>success = false\<close>.
\<close>

theorem Resolve_yields_once:
  "\<not> chan_closed (Out (Resolve dec name reads)) \<and>
   length (sent (Out (Resolve dec name reads))) \<le> 1 \<and>
   (has_choke (processed reads) \<and> chunks_ok (processed reads) \<longrightarrow>
      state (Resolve dec name reads) = Finished \<and>
      length (sent (Out (Resolve dec name reads))) = 1) \<and>
   (has_choke (processed reads) \<and> chunks (processed reads) = [] \<and>
    chunks_ok (processed reads) \<longrightarrow>
      sent (Out (Resolve dec name reads)) = [zeroResolveResult] \<and>
      \<not> success zeroResolveResult) \<and>
   (\<not> has_choke (processed reads) \<longrightarrow> sent (Out (Resolve dec name reads)) = [])"
proof (intro conjI impI)
  show "\<not> chan_closed (Out (Resolve dec name reads))"
    by (simp add: Resolve_cases split: goroutine.split)
  show "length (sent (Out (Resolve dec name reads))) \<le> 1"
    by (simp add: Resolve_cases split: goroutine.split)
next
  assume "has_choke (processed reads) \<and> chunks_ok (processed reads)"
  then obtain v where "resolve_loop dec resolve_init reads = AtSend v"
    using resolve_loop_choke by blast
  then show "state (Resolve dec name reads) = Finished"
    "length (sent (Out (Resolve dec name reads))) = 1"
    by (simp_all add: Resolve_cases)
next
  assume a: "has_choke (processed reads) \<and> chunks (processed reads) = [] \<and>
    chunks_ok (processed reads)"
  then obtain v where l: "resolve_loop dec resolve_init reads = AtSend v"
    using resolve_loop_choke by blast
  from resolve_loop_AtSend [OF l] a l
  show "sent (Out (Resolve dec name reads)) = [zeroResolveResult]"
    by (simp add: Resolve_cases)
  show "\<not> success zeroResolveResult"
    by (simp add: zeroResolveResult_def)
next
  assume n: "\<not> has_choke (processed reads)"
  show "sent (Out (Resolve dec name reads)) = []"
  proof (cases "resolve_loop dec resolve_init reads")
    case (AtSend v)
    from resolve_loop_AtSend [OF AtSend] n show ?thesis by simp
  qed (simp_all add: Resolve_cases)
qed

theorem Resolve_yields_once_witness:
  "has_choke (processed [Eof, Answer [\<lparr>MsgType = CHOKE, Session = 0, Payload = []\<rparr>]]) \<and>
   chunks_ok (processed [Eof, Answer [\<lparr>MsgType = CHOKE, Session = 0, Payload = []\<rparr>]]) \<and>
   chunks (processed [Eof, Answer [\<lparr>MsgType = CHOKE, Session = 0, Payload = []\<rparr>]]) = [] \<and>
   sent (Out (Resolve (\<lambda>c. DecodeError ''EOF'' zeroResolveResult) ''svc''
       [Eof, Answer [\<lparr>MsgType = CHOKE, Session = 0, Payload = []\<rparr>]])) = [zeroResolveResult] \<and>
   \<not> has_choke (processed [Eof, Eof]) \<and>
   sent (Out (Resolve (\<lambda>c. DecodeError ''EOF'' zeroResolveResult) ''svc'' [Eof, Eof])) = []"
proof -
  let ?dec = "\<lambda>c::bytes. DecodeError ''EOF'' zeroResolveResult"
  let ?reads = "[Eof, Answer [\<lparr>MsgType = CHOKE, Session = 0, Payload = []\<rparr>]]"
  have h: "has_choke (processed ?reads)" "chunks_ok (processed ?reads)"
    "chunks (processed ?reads) = []"
    by (simp_all add: CHUNK_def CHOKE_def)
  have n: "\<not> has_choke (processed [Eof, Eof])" by simp
  from h n Resolve_yields_once [of ?dec "''svc''" ?reads]
    Resolve_yields_once [of ?dec "''svc''" "[Eof, Eof]"]
  show ?thesis by simp
qed

text \<open>
  The claim as stated fails. After a choke the value has been sent, and the channel is
  not closed. When the connection closes before any frame arrives, every receive is an
  empty answer: the goroutine goes on receiving and sends nothing.
\<close>

theorem Resolve_yields_once_counterexample:
  "sent (Out (Resolve (\<lambda>c. DecodeError ''EOF'' zeroResolveResult) ''svc''
       [Answer [\<lparr>MsgType = CHOKE, Session = 0, Payload = []\<rparr>]])) = [zeroResolveResult] \<and>
   \<not> chan_closed (Out (Resolve (\<lambda>c. DecodeError ''EOF'' zeroResolveResult) ''svc''
       [Answer [\<lparr>MsgType = CHOKE, Session = 0, Payload = []\<rparr>]])) \<and>
   sent (Out (Resolve (\<lambda>c. DecodeError ''EOF'' zeroResolveResult) ''svc'' [Eof, Eof, Eof])) = [] \<and>
   state (Resolve (\<lambda>c. DecodeError ''EOF'' zeroResolveResult) ''svc'' [Eof, Eof, Eof]) = Blocked"
  by (simp add: resolve_defs)

end
